theory Spec2Isabelle
  imports Main "HOL-Library.Word"
begin

unbundle bit_operations_syntax

section \<open>Go values shared by both connections\<close>

type_synonym byte = "8 word"

text \<open>
  A Go \<open>error\<close> value, as far as this package builds and inspects one.
  \<^item> \<open>ErrorString s\<close> is what \<open>fmt.Errorf\<close> returns for a format without \<open>%w\<close>
    (and \<open>errors.New\<close>): a message and nothing to unwrap.
  \<^item> \<open>WrapError s e\<close> is what \<open>fmt.Errorf\<close> returns for a format with \<open>%w\<close>:
    the formatted message \<open>s\<close> and the wrapped error \<open>e\<close>.
  \<^item> \<open>NetError s t\<close> is an error of the standard library that implements
    \<open>net.Error\<close>: its message and the answer of its \<open>Timeout()\<close> method.
  A \<open>nil\<close> error is \<open>None\<close> of \<open>go_error option\<close>.
\<close>

datatype go_error =
    ErrorString string
  | WrapError string go_error
  | NetError string bool

fun Error :: "go_error \<Rightarrow> string" where
  "Error (ErrorString s) = s"
| "Error (WrapError s e) = s"
| "Error (NetError s t) = s"

fun Unwrap :: "go_error \<Rightarrow> go_error option" where
  "Unwrap (WrapError s e) = Some e"
| "Unwrap (ErrorString s) = None"
| "Unwrap (NetError s t) = None"

text \<open>\<open>fmt.Errorf(prefix + "%w", err)\<close>: every wrapping format of the package ends in \<open>%w\<close>.\<close>

definition Errorf_w :: "string \<Rightarrow> go_error \<Rightarrow> go_error" where
  "Errorf_w prefix err = WrapError (prefix @ Error err) err"

text \<open>\<open>fmt.Errorf(prefix + "%v", x)\<close>, where \<open>shown\<close> is what \<open>%v\<close> prints for \<open>x\<close>;
  with \<open>shown = []\<close> it is \<open>fmt.Errorf(prefix)\<close>.\<close>

definition Errorf_v :: "string \<Rightarrow> string \<Rightarrow> go_error" where
  "Errorf_v prefix shown = ErrorString (prefix @ shown)"

text \<open>\<open>netErr, ok := err.(net.Error); ok && netErr.Timeout()\<close>\<close>

fun is_net_timeout :: "go_error \<Rightarrow> bool" where
  "is_net_timeout (NetError s t) = t"
| "is_net_timeout (ErrorString s) = False"
| "is_net_timeout (WrapError s e) = False"

section \<open>The ICMP decoder (icmp.go)\<close>

subsection \<open>Types of golang.org/x/net that the decoder handles\<close>

text \<open>
  \<open>icmp.Type\<close> is an interface; \<open>ipv4.ICMPType\<close> and \<open>ipv6.ICMPType\<close> (both Go
  \<open>int\<close>s) implement it. The type assertion \<open>m.Type.(ipv4.ICMPType)\<close> succeeds on
  the first constructor only.
\<close>

datatype icmp_Type = ipv4_ICMPType int | ipv6_ICMPType int

definition ICMPTypeEchoReply :: int where
  "ICMPTypeEchoReply = 0"

definition ICMPTypeTimeExceeded :: int where
  "ICMPTypeTimeExceeded = 11"

type_synonym Extension = "byte list"

record TimeExceeded =
  Data :: "byte list"
  Extensions :: "Extension list"

text \<open>
  \<open>icmp.MessageBody\<close> is an interface as well. The decoder only asks whether the
  body is a \<open>*icmp.TimeExceeded\<close>; the other implementations of the library are kept
  with their payload bytes.
\<close>

datatype MessageBody =
    TimeExceededBody TimeExceeded
  | EchoBody int int "byte list"
  | DstUnreachBody "byte list"
  | ParamProbBody int "byte list"
  | PacketTooBigBody int "byte list"
  | RawBody "byte list"

record Message =
  Type :: icmp_Type
  Code :: int
  Checksum :: int
  Body :: MessageBody

record Header =
  Version :: int
  Len :: int
  TOS :: int
  TotalLen :: int
  ID :: int
  Flags :: int
  FragOff :: int
  TTL :: int
  Protocol :: int
  HeaderChecksum :: int
  Src :: "byte list"
  Dst :: "byte list"
  Options :: "byte list"

text \<open>
  The functions of golang.org/x/net that the decoder calls. They are not part of this
  package, so the decoder takes them as a parameter and every theorem below holds for
  all of them:
  \<^item> \<open>icmp.ParseMessage(proto, b)\<close>, an error or a message;
  \<^item> \<open>ipv4.ParseHeader(b)\<close>, an error or a header;
  \<^item> the \<open>String()\<close> method that \<open>%v\<close> calls on an \<open>icmp.Type\<close>.
  A \<open>ParseMessage\<close> that reports no error returns a message, and a \<open>ParseHeader\<close>
  that reports no error returns a header, as the library's do.
\<close>

record xnet =
  icmp_ParseMessage :: "int \<Rightarrow> byte list \<Rightarrow> go_error + Message"
  ipv4_ParseHeader :: "byte list \<Rightarrow> go_error + Header"
  Type_String :: "icmp_Type \<Rightarrow> string"

subsection \<open>parseTimeExceededMessage and ParseICMPMessage\<close>

text \<open>
  Both return Go's triple \<open>(ipv4.ICMPType, *ipv4.Header, error)\<close>; a \<open>nil\<close> header
  and a \<open>nil\<close> error are \<open>None\<close>.
\<close>

type_synonym decoded = "int \<times> Header option \<times> go_error option"

definition parseTimeExceededMessage :: "xnet \<Rightarrow> Message \<Rightarrow> decoded" where
  "parseTimeExceededMessage lib m =
     (case Body m of
        TimeExceededBody body \<Rightarrow>
          (case ipv4_ParseHeader lib (Data body) of
             Inl err \<Rightarrow>
               (ICMPTypeTimeExceeded, None, Some (Errorf_w ''failed to parse IP header: '' err))
           | Inr header \<Rightarrow> (ICMPTypeTimeExceeded, Some header, None))
      | _ \<Rightarrow>
          (ICMPTypeTimeExceeded, None, Some (Errorf_v ''invalid TimeExceeded message body'' [])))"

definition ParseICMPMessage :: "xnet \<Rightarrow> byte list \<Rightarrow> decoded" where
  "ParseICMPMessage lib msg =
     (case icmp_ParseMessage lib 1 msg of
        Inl err \<Rightarrow> (0, None, Some (Errorf_w ''failed to parse ICMP message: '' err))
      | Inr m \<Rightarrow>
          (case Type m of
             ipv6_ICMPType t \<Rightarrow>
               (0, None, Some (Errorf_v ''unexpected ICMP message type: '' (Type_String lib (Type m))))
           | ipv4_ICMPType icmpType \<Rightarrow>
               if icmpType = ICMPTypeTimeExceeded then parseTimeExceededMessage lib m
               else if icmpType = ICMPTypeEchoReply then (icmpType, None, None)
               else (icmpType, None,
                     Some (Errorf_v ''unexpected ICMP message type: ''
                             (Type_String lib (ipv4_ICMPType icmpType))))))"

section \<open>The platform under both connections\<close>

text \<open>
  The standard library and the kernel are not part of this package. The model keeps
  what the package does to them: \<open>calls\<close> is the sequence of library and system calls
  made so far, with their arguments, and \<open>stderr\<close> is what has been written to
  \<open>os.Stderr\<close>. What a call returns is a parameter (\<open>platform\<close> below) that may depend
  on everything that happened before.
\<close>

type_synonym sock = nat

record UDPAddr =
  IP :: "byte list"
  Port :: int
  Zone :: string

text \<open>A \<open>net.Addr\<close> as \<open>ReadFrom\<close> may return it: the \<open>nil\<close> interface, a
  \<open>*net.IPAddr\<close> with its \<open>IP\<close> and \<open>Zone\<close>, a \<open>nil\<close> pointer of that type, or a
  \<open>*net.UDPAddr\<close>.\<close>

datatype Addr = NilAddr | IPAddr "byte list" string | IPAddrNil | UDPAddrPtr UDPAddr

datatype call =
    ResolveUDPAddr_call string string
  | ListenUDP_call string UDPAddr
  | SyscallConn_call sock
  | Close_call sock
  | SetsockoptInt_call int int int int
  | WriteToUDP_call sock "byte list" "UDPAddr option"
  | ListenPacket_call string string
  | SetReadDeadline_call sock int
  | ReadFrom_call sock nat

record world =
  calls :: "call list"
  stderr :: string

definition after_call :: "call \<Rightarrow> world \<Rightarrow> world" where
  "after_call c w = w\<lparr>calls := calls w @ [c]\<rparr>"

text \<open>
  \<open>SyscallConn\<close> is the package's interface with the single method
  \<open>Control(func(fd uintptr)) error\<close>. An implementation receives the callback (which
  acts on the world when it is given a descriptor) and answers with an error or \<open>nil\<close>.
\<close>

record SyscallConn =
  Control :: "(nat \<Rightarrow> world \<Rightarrow> world) \<Rightarrow> world \<Rightarrow> go_error option \<times> world"

text \<open>
  What the calls return. Times are nanoseconds; \<open>PacketConn_ReadFrom s len w\<close> is the
  read into a buffer of \<open>len\<close> bytes: the bytes it stores from index 0 on, the count
  \<open>n\<close> it reports, the peer and the error.
\<close>

record platform =
  net_ResolveUDPAddr :: "string \<Rightarrow> string \<Rightarrow> world \<Rightarrow> go_error + UDPAddr"
  net_ListenUDP :: "string \<Rightarrow> UDPAddr \<Rightarrow> world \<Rightarrow> go_error + sock"
  UDPConn_SyscallConn :: "sock \<Rightarrow> world \<Rightarrow> go_error + SyscallConn"
  UDPConn_Close :: "sock \<Rightarrow> world \<Rightarrow> go_error option"
  UDPConn_WriteToUDP :: "sock \<Rightarrow> byte list \<Rightarrow> UDPAddr option \<Rightarrow> world \<Rightarrow> int \<times> go_error option"
  syscall_SetsockoptInt :: "int \<Rightarrow> int \<Rightarrow> int \<Rightarrow> int \<Rightarrow> world \<Rightarrow> go_error option"
  icmp_ListenPacket :: "string \<Rightarrow> string \<Rightarrow> world \<Rightarrow> go_error + sock"
  PacketConn_SetReadDeadline :: "sock \<Rightarrow> int \<Rightarrow> world \<Rightarrow> go_error option"
  PacketConn_ReadFrom :: "sock \<Rightarrow> nat \<Rightarrow> world \<Rightarrow> byte list \<times> int \<times> Addr \<times> go_error option"
  PacketConn_Close :: "sock \<Rightarrow> world \<Rightarrow> go_error option"
  time_Now :: "world \<Rightarrow> int"

section \<open>The probe sender (udp.go)\<close>

record UDPConn =
  UDPConn :: sock
  syscallConn :: SyscallConn

definition IPPROTO_IP :: int where
  "IPPROTO_IP = 0"

definition IP_TTL :: int where
  "IP_TTL = 2"

definition NewUDPConn :: "platform \<Rightarrow> string \<Rightarrow> world \<Rightarrow> (UDPConn option \<times> go_error option) \<times> world" where
  "NewUDPConn p localAddr w =
     (let w1 = after_call (ResolveUDPAddr_call ''udp4'' localAddr) w in
      case net_ResolveUDPAddr p ''udp4'' localAddr w of
        Inl err \<Rightarrow> ((None, Some (Errorf_w ''failed to resolve local address: '' err)), w1)
      | Inr addr \<Rightarrow>
          (let w2 = after_call (ListenUDP_call ''udp4'' addr) w1 in
           case net_ListenUDP p ''udp4'' addr w1 of
             Inl err \<Rightarrow> ((None, Some (Errorf_w ''failed to create UDP connection: '' err)), w2)
           | Inr conn \<Rightarrow>
               (let w3 = after_call (SyscallConn_call conn) w2 in
                case UDPConn_SyscallConn p conn w2 of
                  Inl err \<Rightarrow>
                    ((None, Some (Errorf_w ''failed to get syscall conn: '' err)),
                     after_call (Close_call conn) w3)
                | Inr rawConn \<Rightarrow>
                    ((Some \<lparr>UDPConn = conn, syscallConn = rawConn\<rparr>, None), w3))))"

text \<open>The closure that \<open>SetTTL\<close> hands to \<open>Control\<close>: it has no result, and a failed
  \<open>setsockopt\<close> only leaves a line on \<open>os.Stderr\<close>.\<close>

definition SetTTL_callback :: "platform \<Rightarrow> int \<Rightarrow> nat \<Rightarrow> world \<Rightarrow> world" where
  "SetTTL_callback p ttl fd w =
     (let w1 = after_call (SetsockoptInt_call (int fd) IPPROTO_IP IP_TTL ttl) w in
      case syscall_SetsockoptInt p (int fd) IPPROTO_IP IP_TTL ttl w of
        Some err \<Rightarrow> w1\<lparr>stderr := stderr w1 @ ''failed to set TTL: '' @ Error err @ [CHR 0x0A]\<rparr>
      | None \<Rightarrow> w1)"

definition SetTTL :: "platform \<Rightarrow> UDPConn \<Rightarrow> int \<Rightarrow> world \<Rightarrow> go_error option \<times> world" where
  "SetTTL p c ttl w = Control (syscallConn c) (SetTTL_callback p ttl) w"

definition SendEmptyPacket :: "platform \<Rightarrow> UDPConn \<Rightarrow> UDPAddr option \<Rightarrow> world \<Rightarrow> go_error option \<times> world" where
  "SendEmptyPacket p c addr w =
     (let w1 = after_call (WriteToUDP_call (UDPConn c) [] addr) w in
      case snd (UDPConn_WriteToUDP p (UDPConn c) [] addr w) of
        Some err \<Rightarrow> (Some (Errorf_w ''failed to send UDP packet: '' err), w1)
      | None \<Rightarrow> (None, w1))"

definition UDPConn_Close_method :: "platform \<Rightarrow> UDPConn \<Rightarrow> world \<Rightarrow> go_error option \<times> world" where
  "UDPConn_Close_method p c w =
     (UDPConn_Close p (UDPConn c) w, after_call (Close_call (UDPConn c)) w)"

section \<open>The response listener (icmp.go)\<close>

definition AllInterfaces :: string where
  "AllInterfaces = ''0.0.0.0''"

definition MaxPacketSize :: nat where
  "MaxPacketSize = 1500"

record ICMPConn =
  conn :: sock

definition NewICMPConn :: "platform \<Rightarrow> world \<Rightarrow> (ICMPConn option \<times> go_error option) \<times> world" where
  "NewICMPConn p w =
     (let w1 = after_call (ListenPacket_call ''ipv4:icmp'' AllInterfaces) w in
      case icmp_ListenPacket p ''ipv4:icmp'' AllInterfaces w of
        Inl err \<Rightarrow> ((None, Some (Errorf_w ''failed to create ICMP connection: '' err)), w1)
      | Inr s \<Rightarrow> ((Some \<lparr>conn = s\<rparr>, None), w1))"

text \<open>Go's \<open>copy(dst, src)\<close> at index 0: a callee can change the contents of the buffer
  it is given, never its length.\<close>

definition copy_into :: "byte list \<Rightarrow> byte list \<Rightarrow> byte list" where
  "copy_into dst src = take (length dst) src @ drop (length src) dst"

text \<open>
  A call either returns or panics. The last line of \<open>ReadWithTimeout\<close> can panic in
  its operands: the slice expression \<open>buffer[:n]\<close> needs \<open>n\<close> within
  \<open>0..cap(buffer)\<close>, the type assertion \<open>peer.(*net.IPAddr)\<close> has no comma-ok form,
  and the field \<open>IP\<close> is read through the pointer. When the count and the peer are
  both bad, the compiled code reports the slice bounds.
\<close>

datatype panic = InterfaceConversion | NilPointerDereference | SliceBoundsOutOfRange

datatype 'a outcome = Panics panic | Returns 'a

text \<open>\<open>peer.(*net.IPAddr).IP\<close>\<close>

fun peer_IP :: "Addr \<Rightarrow> byte list outcome" where
  "peer_IP (IPAddr ip zone) = Returns ip"
| "peer_IP IPAddrNil = Panics NilPointerDereference"
| "peer_IP NilAddr = Panics InterfaceConversion"
| "peer_IP (UDPAddrPtr a) = Panics InterfaceConversion"

text \<open>The world in which the read takes place: the deadline \<open>now + timeout\<close> has been
  set on the connection.\<close>

definition armed :: "platform \<Rightarrow> ICMPConn \<Rightarrow> int \<Rightarrow> world \<Rightarrow> world" where
  "armed p c timeout w = after_call (SetReadDeadline_call (conn c) (time_Now p w + timeout)) w"

text \<open>The result is Go's \<open>(net.IP, []byte, error)\<close>; a \<open>nil\<close> slice is the empty list.\<close>

definition ReadWithTimeout ::
  "platform \<Rightarrow> ICMPConn \<Rightarrow> int \<Rightarrow> world \<Rightarrow> (byte list \<times> byte list \<times> go_error option) outcome \<times> world" where
  "ReadWithTimeout p c timeout w =
     (let w1 = armed p c timeout w in
      case PacketConn_SetReadDeadline p (conn c) (time_Now p w + timeout) w of
        Some err \<Rightarrow> (Returns ([], [], Some (Errorf_w ''failed to set read deadline: '' err)), w1)
      | None \<Rightarrow>
          (let buffer = replicate MaxPacketSize (0 :: byte);
               w2 = after_call (ReadFrom_call (conn c) (length buffer)) w1
           in case PacketConn_ReadFrom p (conn c) (length buffer) w1 of
                (stored, n, peer, Some err) \<Rightarrow>
                  if is_net_timeout err
                  then (Returns ([], [], Some (Errorf_v ''read timeout'' [])), w2)
                  else (Returns ([], [], Some (Errorf_w ''failed to read ICMP message: '' err)), w2)
              | (stored, n, peer, None) \<Rightarrow>
                  if 0 \<le> n \<and> n \<le> int (length buffer)
                  then (case peer_IP peer of
                          Panics x \<Rightarrow> (Panics x, w2)
                        | Returns ip \<Rightarrow>
                            (Returns (ip, take (nat n) (copy_into buffer stored), None), w2))
                  else (Panics SliceBoundsOutOfRange, w2)))"

definition ICMPConn_Close_method :: "platform \<Rightarrow> ICMPConn \<Rightarrow> world \<Rightarrow> go_error option \<times> world" where
  "ICMPConn_Close_method p c w =
     (PacketConn_Close p (conn c) w, after_call (Close_call (conn c)) w)"

section \<open>Stand-ins for the platform\<close>

text \<open>
  The theorems below quantify over the library and the platform. To run the model on
  concrete packets and calls, as the package's tests do with their mocks, this section
  fixes some instances. \<open>MockSyscallConn\<close> is the mock of udp\_test.go: its \<open>Control\<close>
  returns the configured error and never invokes the callback. \<open>rawConn\<close> behaves as
  the raw connection of an open socket does: it invokes the callback once on the
  descriptor and returns \<open>nil\<close>.
\<close>

definition MockSyscallConn :: "go_error option \<Rightarrow> SyscallConn" where
  "MockSyscallConn ret = \<lparr>Control = (\<lambda>f w. (ret, w))\<rparr>"

definition rawConn :: "nat \<Rightarrow> SyscallConn" where
  "rawConn fd = \<lparr>Control = (\<lambda>f w. (None, f fd w))\<rparr>"

text \<open>\<open>setsockopt\<close> as Linux answers it for \<open>IP_TTL\<close>: a value other than -1 and
  outside 1..255 is \<open>EINVAL\<close>.\<close>

definition linux_SetsockoptInt :: "int \<Rightarrow> int \<Rightarrow> int \<Rightarrow> int \<Rightarrow> world \<Rightarrow> go_error option" where
  "linux_SetsockoptInt fd level opt v w =
     (if level = IPPROTO_IP \<and> opt = IP_TTL \<and> v \<noteq> - 1 \<and> (v < 1 \<or> 255 < v)
      then Some (ErrorString ''invalid argument'') else None)"

text \<open>A platform on which every call succeeds and no ICMP message ever arrives.\<close>

definition quiet :: platform where
  "quiet =
     \<lparr>net_ResolveUDPAddr = (\<lambda>network address w. Inr \<lparr>IP = [0, 0, 0, 0], Port = 0, Zone = []\<rparr>),
      net_ListenUDP = (\<lambda>network addr w. Inr 3),
      UDPConn_SyscallConn = (\<lambda>s w. Inr (rawConn s)),
      UDPConn_Close = (\<lambda>s w. None),
      UDPConn_WriteToUDP = (\<lambda>s b addr w. (int (length b), None)),
      syscall_SetsockoptInt = linux_SetsockoptInt,
      icmp_ListenPacket = (\<lambda>network address w. Inr 4),
      PacketConn_SetReadDeadline = (\<lambda>s t w. None),
      PacketConn_ReadFrom = (\<lambda>s len w. ([], 0, NilAddr, Some (NetError ''i/o timeout'' True))),
      PacketConn_Close = (\<lambda>s w. None),
      time_Now = (\<lambda>w. 0)\<rparr>"

text \<open>A read that delivers the datagram \<open>d\<close> from \<open>ip\<close> as a datagram socket does: the
  first \<open>len\<close> bytes are stored and counted, the rest is dropped.\<close>

definition delivering :: "byte list \<Rightarrow> byte list \<Rightarrow> platform" where
  "delivering ip d =
     quiet\<lparr>PacketConn_ReadFrom := (\<lambda>s len w. (take len d, int (min (length d) len), IPAddr ip [], None))\<rparr>"

definition world0 :: world where
  "world0 = \<lparr>calls = [], stderr = []\<rparr>"

text \<open>
  The fixed part of the wire format, for messages without extension objects: type, code
  and checksum of the ICMP envelope (RFC 792), the body after the four bytes that
  follow them, and the fields of an IPv4 header in network byte order (RFC 791).
\<close>

definition be16 :: "byte \<Rightarrow> byte \<Rightarrow> int" where
  "be16 hi lo = 256 * uint hi + uint lo"

definition wire_ParseMessage :: "int \<Rightarrow> byte list \<Rightarrow> go_error + Message" where
  "wire_ParseMessage proto b =
     (if length b < 4 then Inl (ErrorString ''message too short'')
      else if proto \<noteq> 1 then Inl (ErrorString ''invalid protocol'')
      else
        (let t = uint (b ! 0); c = uint (b ! 1); s = be16 (b ! 2) (b ! 3); rest = drop 4 b in
         if t = 11 then
           (if length rest < 4 then Inl (ErrorString ''message too short'')
            else Inr \<lparr>Type = ipv4_ICMPType t, Code = c, Checksum = s,
                       Body = TimeExceededBody \<lparr>Data = drop 4 rest, Extensions = []\<rparr>\<rparr>)
         else if t = 0 \<or> t = 8 then
           (if length rest < 4 then Inl (ErrorString ''message too short'')
            else Inr \<lparr>Type = ipv4_ICMPType t, Code = c, Checksum = s,
                       Body = EchoBody (be16 (rest ! 0) (rest ! 1)) (be16 (rest ! 2) (rest ! 3))
                                (drop 4 rest)\<rparr>)
         else Inr \<lparr>Type = ipv4_ICMPType t, Code = c, Checksum = s, Body = RawBody rest\<rparr>))"

definition wire_ParseHeader :: "byte list \<Rightarrow> go_error + Header" where
  "wire_ParseHeader b =
     (if length b < 20 then Inl (ErrorString ''header too short'')
      else
        (let hdrlen = 4 * (uint (b ! 0) mod 16); frag = be16 (b ! 6) (b ! 7) in
         if int (length b) < hdrlen then Inl (ErrorString ''extension header too short'')
         else Inr \<lparr>Version = uint (b ! 0) div 16, Len = hdrlen, TOS = uint (b ! 1),
                    TotalLen = be16 (b ! 2) (b ! 3), ID = be16 (b ! 4) (b ! 5),
                    Flags = frag div 8192, FragOff = frag mod 8192,
                    TTL = uint (b ! 8), Protocol = uint (b ! 9),
                    HeaderChecksum = be16 (b ! 10) (b ! 11),
                    Src = take 4 (drop 12 b), Dst = take 4 (drop 16 b),
                    Options = take (nat hdrlen - 20) (drop 20 b)\<rparr>))"

definition wire_Type_String :: "icmp_Type \<Rightarrow> string" where
  "wire_Type_String t =
     (case t of
        ipv4_ICMPType n \<Rightarrow>
          (if n = 0 then ''echo reply'' else if n = 3 then ''destination unreachable''
           else if n = 5 then ''redirect'' else if n = 8 then ''echo''
           else if n = 11 then ''time exceeded'' else if n = 12 then ''parameter problem''
           else ''<nil>'')
      | ipv6_ICMPType n \<Rightarrow>
          (if n = 128 then ''echo request'' else if n = 129 then ''echo reply'' else ''<nil>''))"

definition wire :: xnet where
  "wire = \<lparr>icmp_ParseMessage = wire_ParseMessage, ipv4_ParseHeader = wire_ParseHeader,
            Type_String = wire_Type_String\<rparr>"

text \<open>
  Captured messages. The embedded datagram of \<open>time_exceeded_msg\<close> is a UDP probe from
  192.0.2.1 to 8.8.8.8 whose TTL has run out: an IPv4 header of 20 bytes and the 8 bytes
  of the UDP header.
\<close>

definition probe_header :: "byte list" where
  "probe_header =
     [0x45, 0x00, 0x00, 0x1C, 0x12, 0x34, 0x00, 0x00, 0x01, 0x11, 0xD5, 0x8C,
      192, 0, 2, 1, 8, 8, 8, 8]"

definition time_exceeded_msg :: "byte list" where
  "time_exceeded_msg =
     [11, 0, 0xAF, 0x0A, 0, 0, 0, 0] @ probe_header @ [0xC3, 0x51, 0x82, 0x9B, 0x00, 0x08, 0x00, 0x00]"

definition time_exceeded_short_msg :: "byte list" where
  "time_exceeded_short_msg = [11, 0, 0xAF, 0xE3, 0, 0, 0, 0, 0x45, 0x00, 0x00, 0x1C]"

definition echo_reply_msg :: "byte list" where
  "echo_reply_msg = [0, 0, 0xFF, 0xFD, 0, 1, 0, 1]"

definition echo_request_msg :: "byte list" where
  "echo_request_msg = [8, 0, 0xF7, 0xFD, 0, 1, 0, 1]"

definition redirect_msg :: "byte list" where
  "redirect_msg = [5, 1, 0x38, 0x00, 192, 0, 2, 254] @ probe_header"

definition probe_header_fields :: Header where
  "probe_header_fields =
     \<lparr>Version = 4, Len = 20, TOS = 0, TotalLen = 28, ID = 0x1234, Flags = 0, FragOff = 0,
      TTL = 1, Protocol = 17, HeaderChecksum = 0xD58C, Src = [192, 0, 2, 1],
      Dst = [8, 8, 8, 8], Options = []\<rparr>"

text \<open>A library whose \<open>ParseMessage\<close> answers every input with the message \<open>m\<close>, as a
  mock configured with a return value does.\<close>

definition answering :: "Message \<Rightarrow> xnet" where
  "answering m = wire\<lparr>icmp_ParseMessage := (\<lambda>proto b. Inr m)\<rparr>"

section \<open>Properties of the decoder\<close>


lemmas wire_defs = wire_def wire_ParseMessage_def wire_ParseHeader_def wire_Type_String_def be16_def
  probe_header_def answering_def

text \<open>What the stand-in library makes of the captured messages.\<close>

lemma wire_time_exceeded_msg:
  "icmp_ParseMessage wire 1 time_exceeded_msg =
     Inr \<lparr>Type = ipv4_ICMPType 11, Code = 0, Checksum = 0xAF0A,
          Body = TimeExceededBody
            \<lparr>Data = probe_header @ [0xC3, 0x51, 0x82, 0x9B, 0x00, 0x08, 0x00, 0x00],
             Extensions = []\<rparr>\<rparr>"
  by (simp add: wire_defs time_exceeded_msg_def)

lemma wire_probe_header:
  "ipv4_ParseHeader wire (probe_header @ [0xC3, 0x51, 0x82, 0x9B, 0x00, 0x08, 0x00, 0x00]) =
     Inr probe_header_fields"
  by (simp add: wire_defs probe_header_fields_def)

lemma wire_time_exceeded_short_msg:
  "icmp_ParseMessage wire 1 time_exceeded_short_msg =
     Inr \<lparr>Type = ipv4_ICMPType 11, Code = 0, Checksum = 0xAFE3,
          Body = TimeExceededBody \<lparr>Data = [0x45, 0x00, 0x00, 0x1C], Extensions = []\<rparr>\<rparr>"
  by (simp add: wire_defs time_exceeded_short_msg_def)

lemma wire_short_header:
  "ipv4_ParseHeader wire [0x45, 0x00, 0x00, 0x1C] = Inl (ErrorString ''header too short'')"
  by (simp add: wire_defs)

lemma wire_echo_reply_msg:
  "icmp_ParseMessage wire 1 echo_reply_msg =
     Inr \<lparr>Type = ipv4_ICMPType 0, Code = 0, Checksum = 0xFFFD, Body = EchoBody 1 1 []\<rparr>"
  by (simp add: wire_defs echo_reply_msg_def)

lemma wire_echo_request_msg:
  "icmp_ParseMessage wire 1 echo_request_msg =
     Inr \<lparr>Type = ipv4_ICMPType 8, Code = 0, Checksum = 0xF7FD, Body = EchoBody 1 1 []\<rparr>"
  by (simp add: wire_defs echo_request_msg_def)

lemma wire_redirect_msg:
  "icmp_ParseMessage wire 1 redirect_msg =
     Inr \<lparr>Type = ipv4_ICMPType 5, Code = 1, Checksum = 0x3800,
          Body = RawBody ([192, 0, 2, 254] @ probe_header)\<rparr>"
  by (simp add: wire_defs redirect_msg_def)


lemma ParseICMPMessage_ipv4:
  assumes "icmp_ParseMessage lib 1 msg = Inr m" and "Type m = ipv4_ICMPType t"
  shows "ParseICMPMessage lib msg =
           (if t = ICMPTypeTimeExceeded then parseTimeExceededMessage lib m
            else if t = ICMPTypeEchoReply then (t, None, None)
            else (t, None, Some (ErrorString (''unexpected ICMP message type: ''
                                   @ Type_String lib (ipv4_ICMPType t)))))"
  using assms by (simp add: ParseICMPMessage_def Errorf_v_def)

lemma ParseICMPMessage_ipv6:
  assumes "icmp_ParseMessage lib 1 msg = Inr m" and "Type m = ipv6_ICMPType t"
  shows "ParseICMPMessage lib msg =
           (0, None, Some (ErrorString (''unexpected ICMP message type: '' @ Type_String lib (Type m))))"
  using assms by (simp add: ParseICMPMessage_def Errorf_v_def)

lemma parseTimeExceededMessage_header:
  assumes "Body m = TimeExceededBody body"
  shows "parseTimeExceededMessage lib m =
           (case ipv4_ParseHeader lib (Data body) of
              Inl e \<Rightarrow> (ICMPTypeTimeExceeded, None,
                        Some (WrapError (''failed to parse IP header: '' @ Error e) e))
            | Inr h \<Rightarrow> (ICMPTypeTimeExceeded, Some h, None))"
  using assms by (simp add: parseTimeExceededMessage_def Errorf_w_def split: sum.split)

lemma parseTimeExceededMessage_other_body:
  assumes "\<forall>body. Body m \<noteq> TimeExceededBody body"
  shows "parseTimeExceededMessage lib m =
           (ICMPTypeTimeExceeded, None, Some (ErrorString ''invalid TimeExceeded message body''))"
  using assms by (cases "Body m") (simp_all add: parseTimeExceededMessage_def Errorf_v_def)









text \<open>
  C3. When the envelope parses with the IPv4 type Time Exceeded: if the body is the
  Time Exceeded variant and its embedded data parses as the header \<open>h\<close>, the decoder
  returns Time Exceeded, that header \<open>h\<close> as the library parsed it from the embedded
  bytes, and no error; if the embedded data does not parse, it returns no header and an
  error that wraps the library's; if the body is another variant, it returns no header
  and the error "invalid TimeExceeded message body".
\<close>

theorem ParseICMPMessage_TimeExceeded:
  assumes env: "icmp_ParseMessage lib 1 msg = Inr m"
    and ty: "Type m = ipv4_ICMPType ICMPTypeTimeExceeded"
  shows "(\<forall>body h. Body m = TimeExceededBody body \<and> ipv4_ParseHeader lib (Data body) = Inr h \<longrightarrow>
            ParseICMPMessage lib msg = (ICMPTypeTimeExceeded, Some h, None))
       \<and> (\<forall>body e. Body m = TimeExceededBody body \<and> ipv4_ParseHeader lib (Data body) = Inl e \<longrightarrow>
            ParseICMPMessage lib msg =
              (ICMPTypeTimeExceeded, None, Some (WrapError (''failed to parse IP header: '' @ Error e) e)))
       \<and> ((\<forall>body. Body m \<noteq> TimeExceededBody body) \<longrightarrow>
            ParseICMPMessage lib msg =
              (ICMPTypeTimeExceeded, None, Some (ErrorString ''invalid TimeExceeded message body'')))"
proof -
  have branch: "ParseICMPMessage lib msg = parseTimeExceededMessage lib m"
    using ParseICMPMessage_ipv4 [OF env ty] by simp
  show ?thesis
    unfolding branch
    by (auto simp: parseTimeExceededMessage_header parseTimeExceededMessage_other_body)
qed

theorem ParseICMPMessage_TimeExceeded_witness:
  "ParseICMPMessage wire time_exceeded_msg = (ICMPTypeTimeExceeded, Some probe_header_fields, None)
   \<and> TTL probe_header_fields = 1 \<and> Protocol probe_header_fields = 17
   \<and> Src probe_header_fields = [192, 0, 2, 1] \<and> Dst probe_header_fields = [8, 8, 8, 8]
   \<and> ParseICMPMessage wire time_exceeded_short_msg =
       (ICMPTypeTimeExceeded, None,
        Some (WrapError ''failed to parse IP header: header too short'' (ErrorString ''header too short'')))
   \<and> ParseICMPMessage
       (answering \<lparr>Type = ipv4_ICMPType ICMPTypeTimeExceeded, Code = 0, Checksum = 0, Body = RawBody []\<rparr>) [] =
       (ICMPTypeTimeExceeded, None, Some (ErrorString ''invalid TimeExceeded message body''))"
proof -
  have a: "ParseICMPMessage wire time_exceeded_msg = (ICMPTypeTimeExceeded, Some probe_header_fields, None)"
    using ParseICMPMessage_TimeExceeded [OF wire_time_exceeded_msg] wire_probe_header
    by (simp add: ICMPTypeTimeExceeded_def)
  have b: "ParseICMPMessage wire time_exceeded_short_msg =
       (ICMPTypeTimeExceeded, None,
        Some (WrapError ''failed to parse IP header: header too short'' (ErrorString ''header too short'')))"
    using ParseICMPMessage_TimeExceeded [OF wire_time_exceeded_short_msg] wire_short_header
    by (simp add: ICMPTypeTimeExceeded_def)
  have c: "ParseICMPMessage
       (answering \<lparr>Type = ipv4_ICMPType ICMPTypeTimeExceeded, Code = 0, Checksum = 0, Body = RawBody []\<rparr>) [] =
       (ICMPTypeTimeExceeded, None, Some (ErrorString ''invalid TimeExceeded message body''))"
    using ParseICMPMessage_TimeExceeded
      [of "answering \<lparr>Type = ipv4_ICMPType ICMPTypeTimeExceeded, Code = 0, Checksum = 0, Body = RawBody []\<rparr>"
          "[]" "\<lparr>Type = ipv4_ICMPType ICMPTypeTimeExceeded, Code = 0, Checksum = 0, Body = RawBody []\<rparr>"]
    by (simp add: answering_def)
  from a b c show ?thesis by (simp add: probe_header_fields_def)
qed

text \<open>
  C4. When the envelope parses with an IPv4 type other than Time Exceeded and Echo
  Reply, the decoder returns that type, no header, and the error "unexpected ICMP
  message type: " followed by the name the library prints for the type.
\<close>

theorem ParseICMPMessage_unexpected_type:
  assumes "icmp_ParseMessage lib 1 msg = Inr m"
    and "Type m = ipv4_ICMPType t"
    and "t \<noteq> ICMPTypeTimeExceeded" and "t \<noteq> ICMPTypeEchoReply"
  shows "ParseICMPMessage lib msg =
           (t, None, Some (ErrorString (''unexpected ICMP message type: '' @ Type_String lib (ipv4_ICMPType t))))"
  using ParseICMPMessage_ipv4 [OF assms(1,2)] assms(3,4) by simp

theorem ParseICMPMessage_unexpected_type_witness:
  "ParseICMPMessage wire echo_request_msg =
     (8, None, Some (ErrorString ''unexpected ICMP message type: echo''))
   \<and> ParseICMPMessage wire redirect_msg =
     (5, None, Some (ErrorString ''unexpected ICMP message type: redirect''))"
proof -
  have a: "ParseICMPMessage wire echo_request_msg =
     (8, None, Some (ErrorString ''unexpected ICMP message type: echo''))"
    using ParseICMPMessage_unexpected_type [OF wire_echo_request_msg]
    by (simp add: ICMPTypeTimeExceeded_def ICMPTypeEchoReply_def wire_def wire_Type_String_def)
  have b: "ParseICMPMessage wire redirect_msg =
     (5, None, Some (ErrorString ''unexpected ICMP message type: redirect''))"
    using ParseICMPMessage_unexpected_type [OF wire_redirect_msg]
    by (simp add: ICMPTypeTimeExceeded_def ICMPTypeEchoReply_def wire_def wire_Type_String_def)
  from a b show ?thesis by simp
qed

text \<open>
  C6. Whenever the envelope parses and its type is the IPv4 Echo Reply, the decoder
  returns the Echo Reply tag, no header and no error, whatever the rest of the message
  (code, checksum, body) holds.
\<close>

theorem ParseICMPMessage_EchoReply:
  assumes "icmp_ParseMessage lib 1 msg = Inr m"
    and "Type m = ipv4_ICMPType ICMPTypeEchoReply"
  shows "ParseICMPMessage lib msg = (ICMPTypeEchoReply, None, None)"
  using ParseICMPMessage_ipv4 [OF assms]
  by (simp add: ICMPTypeEchoReply_def ICMPTypeTimeExceeded_def)

theorem ParseICMPMessage_EchoReply_witness:
  "icmp_ParseMessage wire 1 echo_reply_msg =
     Inr \<lparr>Type = ipv4_ICMPType 0, Code = 0, Checksum = 0xFFFD, Body = EchoBody 1 1 []\<rparr>
   \<and> ParseICMPMessage wire echo_reply_msg = (ICMPTypeEchoReply, None, None)"
  using ParseICMPMessage_EchoReply [OF wire_echo_reply_msg] wire_echo_reply_msg
  by (simp add: ICMPTypeEchoReply_def)

text \<open>
  C9. When the envelope parses but its type is not an \<open>ipv4.ICMPType\<close>, the decoder
  returns the zero type tag, no header and an error; the tag of the message itself is
  not returned.
\<close>

theorem ParseICMPMessage_not_ipv4:
  assumes "icmp_ParseMessage lib 1 msg = Inr m"
    and "Type m = ipv6_ICMPType t"
  shows "ParseICMPMessage lib msg =
           (0, None, Some (ErrorString (''unexpected ICMP message type: '' @ Type_String lib (Type m))))"
  using assms by (rule ParseICMPMessage_ipv6)

theorem ParseICMPMessage_not_ipv4_witness:
  "ParseICMPMessage (answering \<lparr>Type = ipv6_ICMPType 129, Code = 0, Checksum = 0, Body = EchoBody 1 1 []\<rparr>)
     echo_reply_msg =
     (0, None, Some (ErrorString ''unexpected ICMP message type: echo reply''))"
  using ParseICMPMessage_not_ipv4
    [of "answering \<lparr>Type = ipv6_ICMPType 129, Code = 0, Checksum = 0, Body = EchoBody 1 1 []\<rparr>"
        echo_reply_msg "\<lparr>Type = ipv6_ICMPType 129, Code = 0, Checksum = 0, Body = EchoBody 1 1 []\<rparr>" 129]
  by (simp add: answering_def wire_def wire_Type_String_def)

section \<open>Properties of the probe sender\<close>

lemma SendEmptyPacket_calls:
  "calls (snd (SendEmptyPacket p c addr w)) = calls w @ [WriteToUDP_call (UDPConn c) [] addr]"
  by (simp add: SendEmptyPacket_def Let_def after_call_def split: option.split)

lemma SetTTL_callback_calls:
  "calls (SetTTL_callback p ttl fd w) = calls w @ [SetsockoptInt_call (int fd) IPPROTO_IP IP_TTL ttl]"
  by (simp add: SetTTL_callback_def Let_def after_call_def split: option.split)

lemma SetTTL_rawConn:
  "SetTTL p \<lparr>UDPConn = s, syscallConn = rawConn fd\<rparr> ttl w = (None, SetTTL_callback p ttl fd w)"
  by (simp add: SetTTL_def rawConn_def)

lemma SetTTL_MockSyscallConn:
  "SetTTL p \<lparr>UDPConn = s, syscallConn = MockSyscallConn ret\<rparr> ttl w = (ret, w)"
  by (simp add: SetTTL_def MockSyscallConn_def)

text \<open>
  C2. \<open>SetTTL(256)\<close> on an open socket: the kernel refuses the option with \<open>EINVAL\<close>,
  the callback writes the failure to \<open>os.Stderr\<close>, and \<open>SetTTL\<close> returns \<open>nil\<close>.
\<close>

theorem SetTTL_swallows_setsockopt_failure:
  "syscall_SetsockoptInt quiet 3 IPPROTO_IP IP_TTL 256 world0 = Some (ErrorString ''invalid argument'')
   \<and> SetTTL quiet \<lparr>UDPConn = 3, syscallConn = rawConn 3\<rparr> 256 world0 =
       (None, \<lparr>calls = [SetsockoptInt_call 3 IPPROTO_IP IP_TTL 256],
               stderr = ''failed to set TTL: invalid argument'' @ [CHR 0x0A]\<rparr>)"
  by (simp add: SetTTL_rawConn SetTTL_callback_def quiet_def linux_SetsockoptInt_def
      after_call_def world0_def)

text \<open>
  C7. For every TTL (in particular 1..255), every destination and every implementation
  of \<open>Control\<close>: the send that follows \<open>SetTTL\<close> makes exactly one call, \<open>WriteToUDP\<close> on
  the connection's socket with the empty payload and the given destination, the same
  call that it makes without a preceding \<open>SetTTL\<close>. When \<open>Control\<close> is the raw connection
  of the socket, the two operations together make the \<open>setsockopt\<close> call and that one
  write, and nothing else.
\<close>

theorem SetTTL_then_SendEmptyPacket:
  assumes ttl: "SetTTL p c ttl w = (e1, w1)"
    and send: "SendEmptyPacket p c addr w1 = (e2, w2)"
  shows "calls w2 = calls w1 @ [WriteToUDP_call (UDPConn c) [] addr]
       \<and> last (calls w2) = last (calls (snd (SendEmptyPacket p c addr w)))
       \<and> (\<forall>fd. syscallConn c = rawConn fd \<longrightarrow>
            calls w2 = calls w @ [SetsockoptInt_call (int fd) IPPROTO_IP IP_TTL ttl,
                                  WriteToUDP_call (UDPConn c) [] addr])"
proof -
  from send SendEmptyPacket_calls [of p c addr w1]
  have sent: "calls w2 = calls w1 @ [WriteToUDP_call (UDPConn c) [] addr]" by simp
  have same: "last (calls w2) = last (calls (snd (SendEmptyPacket p c addr w)))"
    by (simp add: sent SendEmptyPacket_calls)
  have raw: "calls w2 = calls w @ [SetsockoptInt_call (int fd) IPPROTO_IP IP_TTL ttl,
                                   WriteToUDP_call (UDPConn c) [] addr]"
    if "syscallConn c = rawConn fd" for fd
  proof -
    from that ttl have "w1 = SetTTL_callback p ttl fd w"
      by (simp add: SetTTL_def rawConn_def)
    then show ?thesis by (simp add: sent SetTTL_callback_calls)
  qed
  from sent same raw show ?thesis by blast
qed

theorem SetTTL_then_SendEmptyPacket_witness:
  "SetTTL quiet \<lparr>UDPConn = 3, syscallConn = rawConn 3\<rparr> 64 world0 =
     (None, \<lparr>calls = [SetsockoptInt_call 3 IPPROTO_IP IP_TTL 64], stderr = []\<rparr>)
   \<and> SendEmptyPacket quiet \<lparr>UDPConn = 3, syscallConn = rawConn 3\<rparr>
        (Some \<lparr>IP = [127, 0, 0, 1], Port = 61337, Zone = []\<rparr>)
        \<lparr>calls = [SetsockoptInt_call 3 IPPROTO_IP IP_TTL 64], stderr = []\<rparr> =
     (None, \<lparr>calls = [SetsockoptInt_call 3 IPPROTO_IP IP_TTL 64,
                       WriteToUDP_call 3 [] (Some \<lparr>IP = [127, 0, 0, 1], Port = 61337, Zone = []\<rparr>)],
             stderr = []\<rparr>)
   \<and> calls \<lparr>calls = [SetsockoptInt_call 3 IPPROTO_IP IP_TTL 64,
                       WriteToUDP_call 3 [] (Some \<lparr>IP = [127, 0, 0, 1], Port = 61337, Zone = []\<rparr>)],
             stderr = []\<rparr> =
       calls world0 @ [SetsockoptInt_call 3 IPPROTO_IP IP_TTL 64,
                       WriteToUDP_call 3 [] (Some \<lparr>IP = [127, 0, 0, 1], Port = 61337, Zone = []\<rparr>)]"
proof -
  have a: "SetTTL quiet \<lparr>UDPConn = 3, syscallConn = rawConn 3\<rparr> 64 world0 =
     (None, \<lparr>calls = [SetsockoptInt_call 3 IPPROTO_IP IP_TTL 64], stderr = []\<rparr>)"
    by (simp add: SetTTL_rawConn SetTTL_callback_def quiet_def linux_SetsockoptInt_def
        after_call_def world0_def IPPROTO_IP_def IP_TTL_def)
  have b: "SendEmptyPacket quiet \<lparr>UDPConn = 3, syscallConn = rawConn 3\<rparr>
        (Some \<lparr>IP = [127, 0, 0, 1], Port = 61337, Zone = []\<rparr>)
        \<lparr>calls = [SetsockoptInt_call 3 IPPROTO_IP IP_TTL 64], stderr = []\<rparr> =
     (None, \<lparr>calls = [SetsockoptInt_call 3 IPPROTO_IP IP_TTL 64,
                       WriteToUDP_call 3 [] (Some \<lparr>IP = [127, 0, 0, 1], Port = 61337, Zone = []\<rparr>)],
             stderr = []\<rparr>)"
    by (simp add: SendEmptyPacket_def quiet_def after_call_def)
  from SetTTL_then_SendEmptyPacket [OF a b] a b show ?thesis by simp
qed

text \<open>
  C10. When the address resolves and the socket is bound but \<open>SyscallConn\<close> fails,
  \<open>NewUDPConn\<close> returns no connection and the wrapped error, and its last call before
  returning is \<open>Close\<close> on the socket it has just bound.
\<close>

theorem NewUDPConn_closes_socket_on_SyscallConn_failure:
  assumes "net_ResolveUDPAddr p ''udp4'' localAddr w = Inr addr"
    and "net_ListenUDP p ''udp4'' addr (after_call (ResolveUDPAddr_call ''udp4'' localAddr) w) = Inr s"
    and "UDPConn_SyscallConn p s
           (after_call (ListenUDP_call ''udp4'' addr)
              (after_call (ResolveUDPAddr_call ''udp4'' localAddr) w)) = Inl err"
  shows "fst (NewUDPConn p localAddr w) =
           (None, Some (WrapError (''failed to get syscall conn: '' @ Error err) err))
       \<and> calls (snd (NewUDPConn p localAddr w)) =
           calls w @ [ResolveUDPAddr_call ''udp4'' localAddr, ListenUDP_call ''udp4'' addr,
                      SyscallConn_call s, Close_call s]"
  using assms by (simp add: NewUDPConn_def Let_def Errorf_w_def after_call_def)

theorem NewUDPConn_closes_socket_on_SyscallConn_failure_witness:
  "fst (NewUDPConn (quiet\<lparr>UDPConn_SyscallConn := (\<lambda>s w. Inl (ErrorString ''invalid argument''))\<rparr>)
          '':0'' world0) =
     (None, Some (WrapError ''failed to get syscall conn: invalid argument''
                    (ErrorString ''invalid argument'')))
   \<and> calls (snd (NewUDPConn (quiet\<lparr>UDPConn_SyscallConn := (\<lambda>s w. Inl (ErrorString ''invalid argument''))\<rparr>)
                   '':0'' world0)) =
       [ResolveUDPAddr_call ''udp4'' '':0'',
        ListenUDP_call ''udp4'' \<lparr>IP = [0, 0, 0, 0], Port = 0, Zone = []\<rparr>,
        SyscallConn_call 3, Close_call 3]"
  using NewUDPConn_closes_socket_on_SyscallConn_failure
    [of "quiet\<lparr>UDPConn_SyscallConn := (\<lambda>s w. Inl (ErrorString ''invalid argument''))\<rparr>"
        "'':0''" world0 "\<lparr>IP = [0, 0, 0, 0], Port = 0, Zone = []\<rparr>" 3 "ErrorString ''invalid argument''"]
  by (simp add: quiet_def world0_def)

section \<open>Properties of the response listener\<close>

lemma ReadWithTimeout_read:
  assumes "PacketConn_SetReadDeadline p (conn c) (time_Now p w + timeout) w = None"
    and "PacketConn_ReadFrom p (conn c) MaxPacketSize (armed p c timeout w) = (stored, n, peer, err)"
  shows "fst (ReadWithTimeout p c timeout w) =
           (case err of
              Some e \<Rightarrow>
                if is_net_timeout e then Returns ([], [], Some (ErrorString ''read timeout''))
                else Returns ([], [], Some (WrapError (''failed to read ICMP message: '' @ Error e) e))
            | None \<Rightarrow>
                if 0 \<le> n \<and> n \<le> int MaxPacketSize
                then (case peer_IP peer of
                        Panics x \<Rightarrow> Panics x
                      | Returns ip \<Rightarrow>
                          Returns (ip, take (nat n) (copy_into (replicate MaxPacketSize 0) stored), None))
                else Panics SliceBoundsOutOfRange)"
  using assms
  by (auto simp: ReadWithTimeout_def Let_def Errorf_w_def Errorf_v_def
      split: option.split outcome.split)

lemma ReadWithTimeout_deadline_error:
  assumes "PacketConn_SetReadDeadline p (conn c) (time_Now p w + timeout) w = Some e"
  shows "fst (ReadWithTimeout p c timeout w) =
           Returns ([], [], Some (WrapError (''failed to set read deadline: '' @ Error e) e))"
  using assms by (simp add: ReadWithTimeout_def Let_def Errorf_w_def)

lemma take_copy_into_exact:
  assumes "length stored \<le> length dst"
  shows "take (length stored) (copy_into dst stored) = stored"
  using assms by (simp add: copy_into_def)

lemma length_copy_into: "length (copy_into dst src) = length dst"
  by (simp add: copy_into_def)

text \<open>
  C5. When the deadline has been set and the read fails with the error \<open>e\<close>: if \<open>e\<close> is a
  \<open>net.Error\<close> whose \<open>Timeout()\<close> holds, \<open>ReadWithTimeout\<close> returns the error "read
  timeout", which wraps nothing; otherwise it returns an error that wraps \<open>e\<close> and whose
  message starts with "failed to read ICMP message: ". The two are told apart by their
  message and by \<open>Unwrap\<close>.
\<close>

theorem ReadWithTimeout_timeout_distinguished:
  assumes dl: "PacketConn_SetReadDeadline p (conn c) (time_Now p w + timeout) w = None"
    and rd: "PacketConn_ReadFrom p (conn c) MaxPacketSize (armed p c timeout w) = (stored, n, peer, Some e)"
  shows "\<exists>err. fst (ReadWithTimeout p c timeout w) = Returns ([], [], Some err)
           \<and> err = (if is_net_timeout e then ErrorString ''read timeout''
                    else WrapError (''failed to read ICMP message: '' @ Error e) e)
           \<and> (Error err = ''read timeout'') = is_net_timeout e
           \<and> (Unwrap err = None) = is_net_timeout e
           \<and> (Unwrap err = Some e) = (\<not> is_net_timeout e)"
proof (cases "is_net_timeout e")
  case True
  with ReadWithTimeout_read [OF dl rd]
  have "fst (ReadWithTimeout p c timeout w) = Returns ([], [], Some (ErrorString ''read timeout''))"
    by simp
  with True show ?thesis by simp
next
  case False
  with ReadWithTimeout_read [OF dl rd]
  have "fst (ReadWithTimeout p c timeout w) =
          Returns ([], [], Some (WrapError (''failed to read ICMP message: '' @ Error e) e))"
    by simp
  with False show ?thesis by simp
qed

theorem ReadWithTimeout_timeout_distinguished_witness:
  "fst (ReadWithTimeout quiet \<lparr>conn = 4\<rparr> 1000000000 world0) =
     Returns ([], [], Some (ErrorString ''read timeout''))
   \<and> fst (ReadWithTimeout
            (quiet\<lparr>PacketConn_ReadFrom :=
                     (\<lambda>s len w. ([], 0, NilAddr, Some (ErrorString ''use of closed network connection'')))\<rparr>)
            \<lparr>conn = 4\<rparr> 1000000000 world0) =
     Returns ([], [], Some (WrapError ''failed to read ICMP message: use of closed network connection''
                              (ErrorString ''use of closed network connection'')))"
proof -
  have a: "fst (ReadWithTimeout quiet \<lparr>conn = 4\<rparr> 1000000000 world0) =
     Returns ([], [], Some (ErrorString ''read timeout''))"
    using ReadWithTimeout_timeout_distinguished
      [of quiet "\<lparr>conn = 4\<rparr>" world0 1000000000 "[]" 0 NilAddr "NetError ''i/o timeout'' True"]
    by (simp add: quiet_def)
  have b: "fst (ReadWithTimeout
            (quiet\<lparr>PacketConn_ReadFrom :=
                     (\<lambda>s len w. ([], 0, NilAddr, Some (ErrorString ''use of closed network connection'')))\<rparr>)
            \<lparr>conn = 4\<rparr> 1000000000 world0) =
     Returns ([], [], Some (WrapError ''failed to read ICMP message: use of closed network connection''
                              (ErrorString ''use of closed network connection'')))"
    using ReadWithTimeout_timeout_distinguished
      [of "quiet\<lparr>PacketConn_ReadFrom :=
                     (\<lambda>s len w. ([], 0, NilAddr, Some (ErrorString ''use of closed network connection'')))\<rparr>"
          "\<lparr>conn = 4\<rparr>" world0 1000000000 "[]" 0 NilAddr "ErrorString ''use of closed network connection''"]
    by (simp add: quiet_def)
  from a b show ?thesis by simp
qed

text \<open>
  C8. Let the read have stored the bytes \<open>stored\<close> at the start of the buffer and
  reported the count \<open>n\<close>. Every successful \<open>ReadWithTimeout\<close> returns the first \<open>n\<close> bytes
  of the buffer: \<open>n\<close> bytes, at most \<open>MaxPacketSize = 1500\<close>, and exactly the stored bytes
  when \<open>n\<close> is their number. A datagram \<open>d\<close> of any length that the socket delivers by
  storing and counting what fits into the buffer is returned cut to its first 1500
  bytes, without an error.
\<close>

theorem ReadWithTimeout_returns_received_bytes:
  assumes rd: "PacketConn_ReadFrom p (conn c) MaxPacketSize (armed p c timeout w) = (stored, n, peer, err)"
  shows "(\<forall>ip data w'. ReadWithTimeout p c timeout w = (Returns (ip, data, None), w') \<longrightarrow>
            int (length data) = n \<and> length data \<le> MaxPacketSize \<and> MaxPacketSize = 1500
            \<and> data = take (nat n) (copy_into (replicate MaxPacketSize 0) stored)
            \<and> (n = int (length stored) \<longrightarrow> data = stored))
       \<and> (\<forall>d ip zone.
            PacketConn_SetReadDeadline p (conn c) (time_Now p w + timeout) w = None
            \<and> (stored, n, peer, err) =
                (take MaxPacketSize d, int (min (length d) MaxPacketSize), IPAddr ip zone, None) \<longrightarrow>
            fst (ReadWithTimeout p c timeout w) = Returns (ip, take MaxPacketSize d, None))"
proof -
  have received: "int (length data) = n \<and> length data \<le> MaxPacketSize \<and> MaxPacketSize = 1500
            \<and> data = take (nat n) (copy_into (replicate MaxPacketSize 0) stored)
            \<and> (n = int (length stored) \<longrightarrow> data = stored)"
    if ok: "ReadWithTimeout p c timeout w = (Returns (ip, data, None), w')" for ip data w'
  proof (cases "PacketConn_SetReadDeadline p (conn c) (time_Now p w + timeout) w")
    case (Some e)
    from ReadWithTimeout_deadline_error [OF Some] ok show ?thesis by simp
  next
    case None
    from ReadWithTimeout_read [OF None rd] ok
    have n: "0 \<le> n" "n \<le> int MaxPacketSize"
      and data: "data = take (nat n) (copy_into (replicate MaxPacketSize 0) stored)"
      by (auto split: option.splits outcome.splits if_splits)
    from n have len: "length data = nat n"
      by (simp add: data length_copy_into)
    have exact: "data = stored" if "n = int (length stored)"
    proof -
      from that n have "length stored \<le> length (replicate MaxPacketSize (0 :: byte))" by simp
      from take_copy_into_exact [OF this] that show ?thesis by (simp add: data)
    qed
    from n len data exact show ?thesis by (simp add: MaxPacketSize_def)
  qed
  have truncated: "fst (ReadWithTimeout p c timeout w) = Returns (ip, take MaxPacketSize d, None)"
    if dl: "PacketConn_SetReadDeadline p (conn c) (time_Now p w + timeout) w = None"
      and eq: "(stored, n, peer, err) =
                 (take MaxPacketSize d, int (min (length d) MaxPacketSize), IPAddr ip zone, None)"
    for d ip zone
  proof -
    from eq have parts: "stored = take MaxPacketSize d" "n = int (min (length d) MaxPacketSize)"
      "peer = IPAddr ip zone" "err = None" by simp_all
    have "take (min (length d) MaxPacketSize) (copy_into (replicate MaxPacketSize 0) (take MaxPacketSize d)) =
            take MaxPacketSize d"
      using take_copy_into_exact [of "take MaxPacketSize d" "replicate MaxPacketSize 0"]
      by (simp add: min.commute)
    with ReadWithTimeout_read [OF dl rd] parts show ?thesis by simp
  qed
  from received truncated show ?thesis by blast
qed

theorem ReadWithTimeout_returns_received_bytes_witness:
  "ReadWithTimeout (delivering [192, 0, 2, 1] (replicate 1600 0x2A)) \<lparr>conn = 4\<rparr> 1000000000 world0 =
     (Returns ([192, 0, 2, 1], replicate 1500 0x2A, None),
      \<lparr>calls = [SetReadDeadline_call 4 1000000000, ReadFrom_call 4 1500], stderr = []\<rparr>)
   \<and> length (replicate 1500 (0x2A :: byte)) \<le> MaxPacketSize
   \<and> fst (ReadWithTimeout (delivering [192, 0, 2, 1] time_exceeded_msg) \<lparr>conn = 4\<rparr> 1000000000 world0) =
       Returns ([192, 0, 2, 1], time_exceeded_msg, None)"
proof -
  have rd: "PacketConn_ReadFrom (delivering [192, 0, 2, 1] (replicate 1600 0x2A)) (conn \<lparr>conn = 4\<rparr>)
              MaxPacketSize (armed (delivering [192, 0, 2, 1] (replicate 1600 0x2A)) \<lparr>conn = 4\<rparr> 1000000000 world0) =
            (replicate 1500 0x2A, 1500, IPAddr [192, 0, 2, 1] [], None)"
    by (simp add: delivering_def MaxPacketSize_def)
  have ok: "ReadWithTimeout (delivering [192, 0, 2, 1] (replicate 1600 0x2A)) \<lparr>conn = 4\<rparr> 1000000000 world0 =
     (Returns ([192, 0, 2, 1], replicate 1500 0x2A, None),
      \<lparr>calls = [SetReadDeadline_call 4 1000000000, ReadFrom_call 4 1500], stderr = []\<rparr>)"
    by (simp add: ReadWithTimeout_def delivering_def quiet_def armed_def after_call_def world0_def
        MaxPacketSize_def copy_into_def)
  have small: "fst (ReadWithTimeout (delivering [192, 0, 2, 1] time_exceeded_msg) \<lparr>conn = 4\<rparr> 1000000000 world0) =
       Returns ([192, 0, 2, 1], time_exceeded_msg, None)"
    by (simp add: ReadWithTimeout_def delivering_def quiet_def armed_def after_call_def world0_def
        MaxPacketSize_def copy_into_def time_exceeded_msg_def probe_header_def)
  from ReadWithTimeout_returns_received_bytes [OF rd] ok small show ?thesis by simp
qed

end
